theory Spec2Isabelle
  imports Main
begin

section \<open>Data model of \<open>distributed/dist_loader.py\<close>\<close>

text \<open>
  Python integers are unbounded, so every integer attribute is an \<open>int\<close>.
  \<open>DistContext\<close> is the descriptor class the loader instantiates with five keyword
  arguments; the record has exactly those fields.
\<close>

record DistContext =
  world_size :: int
  rank :: int
  global_world_size :: int
  global_rank :: int
  group_name :: string

text \<open>
  Objects that are shared by reference (queues, iterators) are identified by an address.
  Allocation hands out \<open>next_ref\<close> and increments it, so an address below \<open>next_ref\<close>
  is an object that already exists.
\<close>

type_synonym ref = nat

text \<open>
  Exceptions are values. Only the class and the message matter here. \<open>except RuntimeError\<close>
  also catches every subclass of \<open>RuntimeError\<close>, which \<open>isinstance_RuntimeError\<close> decides.
\<close>

datatype exc_class =
    RuntimeError
  | RuntimeError_subclass string
  | AttributeError
  | QueueEmpty
  | Other_exception string

datatype pyexc = PyExc exc_class string

fun exc_class_of :: "pyexc \<Rightarrow> exc_class" where
  "exc_class_of (PyExc c m) = c"

fun exc_message :: "pyexc \<Rightarrow> string" where
  "exc_message (PyExc c m) = m"

fun isinstance_RuntimeError :: "pyexc \<Rightarrow> bool" where
  "isinstance_RuntimeError (PyExc RuntimeError m) = True"
| "isinstance_RuntimeError (PyExc (RuntimeError_subclass n) m) = True"
| "isinstance_RuntimeError (PyExc c m) = False"

text \<open>
  A call either returns a value, raises, or waits on an empty queue: \<open>mp.Queue.get()\<close>
  without a timeout does not return while the queue holds nothing.
\<close>

datatype 'a outcome = Returned 'a | Raised pyexc | Blocked

text \<open>Access to an attribute an object does not have: the message CPython builds.\<close>

definition has_no_attribute :: "string \<Rightarrow> string \<Rightarrow> pyexc" where
  "has_no_attribute cls attr =
     PyExc AttributeError
       ([CHR 0x27] @ cls @ [CHR 0x27] @ '' object has no attribute '' @
        [CHR 0x27] @ attr @ [CHR 0x27])"

definition NoneType_has_no_attribute :: "string \<Rightarrow> pyexc" where
  "NoneType_has_no_attribute attr = has_no_attribute ''NoneType'' attr"

text \<open>
  The sampler is an external collaborator. The loader touches two things of it: the
  attribute \<open>channel\<close>, which \<open>reset_channel\<close> overwrites, and the method
  \<open>init_sampler_instance\<close>, which is a parameter of \<open>worker_init_fn\<close> below.
\<close>

record DistNeighborSampler =
  sampler_channel :: "ref option"

text \<open>
  The iterator returned by \<open>_get_iterator()\<close> is a \<open>DataLoaderIterator\<close>. That class
  defines \<open>__len__\<close> (the number of batches) and no \<open>__bool__\<close>, so the truth value that
  \<open>if self._iterator:\<close> tests is \<open>len(iterator) != 0\<close>.
\<close>

record DataLoaderIterator =
  iter_id :: ref
  iter_len :: nat

definition truthy_iterator :: "DataLoaderIterator option \<Rightarrow> bool" where
  "truthy_iterator it = (case it of None \<Rightarrow> False | Some i \<Rightarrow> iter_len i \<noteq> 0)"

text \<open>
  The observable steps of the reset protocol, recorded in the order they happen:
  a message popped from a queue, the group barrier, the assignment to the
  loader's \<open>channel\<close>, the assignment to the sampler's \<open>channel\<close>.
\<close>

datatype 'm event =
    Pop ref 'm
  | Barrier
  | Install ref
  | Propagate ref

text \<open>
  The state a method of \<open>DistLoader\<close> runs in: the attributes of \<open>self\<close> (with the ones
  the \<open>DataLoader\<close> mix-in provides: \<open>prefetch_factor\<close>, \<open>_iterator\<close>, and the number of
  batches its iterators have), the message queues that exist, and the event trace.
  \<open>_prefetch_old\<close> and \<open>current_ctx_worker\<close> do not exist before they are first assigned:
  \<open>None\<close> stands for the missing attribute.
\<close>

record 'm DistLoader =
  class_name :: string
  dist_sampler :: "DistNeighborSampler option"
  current_ctx :: DistContext
  channel :: "ref option"
  pid :: int
  num_workers :: int
  current_ctx_worker :: "DistContext option"
  prefetch_factor :: int
  prefetch_old :: "int option"
  iterator :: "DataLoaderIterator option"
  num_batches :: nat
  queues :: "ref \<Rightarrow> 'm list"
  next_ref :: ref
  trace :: "'m event list"

section \<open>Library operations the loader calls\<close>

text \<open>\<open>str(n)\<close> for an integer: decimal digits, most significant first, \<open>-\<close> when negative.\<close>

definition digit_char :: "nat \<Rightarrow> char" where
  "digit_char d = ''0123456789'' ! d"

function str_nat :: "nat \<Rightarrow> string" where
  "str_nat n = (if n < 10 then [digit_char n] else str_nat (n div 10) @ [digit_char (n mod 10)])"
  by pat_completeness auto
termination
  by (relation "measure (\<lambda>n. n)") auto

declare str_nat.simps [simp del]

definition str_int :: "int \<Rightarrow> string" where
  "str_int i = (if i < 0 then CHR ''-'' # str_nat (nat (- i)) else str_nat (nat i))"

text \<open>\<open>mp.Queue()\<close>: a new, empty queue at a new address.\<close>

definition mp_Queue :: "'m DistLoader \<Rightarrow> ref \<times> 'm DistLoader" where
  "mp_Queue self =
     (next_ref self,
      self\<lparr>queues := (queues self)(next_ref self := []), next_ref := Suc (next_ref self)\<rparr>)"

text \<open>\<open>q.empty()\<close>, \<open>q.get_nowait()\<close> and the blocking \<open>q.get()\<close> of a FIFO queue.\<close>

definition queue_empty :: "ref \<Rightarrow> 'm DistLoader \<Rightarrow> bool" where
  "queue_empty a self = (queues self a = [])"

definition get_nowait :: "ref \<Rightarrow> 'm DistLoader \<Rightarrow> 'm outcome \<times> 'm DistLoader" where
  "get_nowait a self =
     (case queues self a of
        [] \<Rightarrow> (Raised (PyExc QueueEmpty []), self)
      | m # ms \<Rightarrow>
          (Returned m, self\<lparr>queues := (queues self)(a := ms), trace := trace self @ [Pop a m]\<rparr>))"

definition queue_get :: "ref \<Rightarrow> 'm DistLoader \<Rightarrow> 'm outcome \<times> 'm DistLoader" where
  "queue_get a self =
     (case queues self a of
        [] \<Rightarrow> (Blocked, self)
      | m # ms \<Rightarrow>
          (Returned m, self\<lparr>queues := (queues self)(a := ms), trace := trace self @ [Pop a m]\<rparr>))"

text \<open>\<open>torch.distributed.barrier()\<close>: seen from one process, a step in the trace.\<close>

definition barrier :: "'m DistLoader \<Rightarrow> 'm DistLoader" where
  "barrier self = self\<lparr>trace := trace self @ [Barrier]\<rparr>"

text \<open>
  \<open>self._get_iterator()\<close> of the \<open>DataLoader\<close> mix-in: every call builds a new iterator
  object over the loader's batches.
\<close>

definition get_iterator :: "'m DistLoader \<Rightarrow> DataLoaderIterator \<times> 'm DistLoader" where
  "get_iterator self =
     (\<lparr>iter_id = next_ref self, iter_len = num_batches self\<rparr>,
      self\<lparr>next_ref := Suc (next_ref self)\<rparr>)"

section \<open>The methods of \<open>DistLoader\<close>\<close>

text \<open>\<open>__repr__\<close>: \<open>f'{self.__class__.__name__}(pid={self.pid})'\<close>.\<close>

definition loader_repr :: "'m DistLoader \<Rightarrow> string" where
  "loader_repr self = class_name self @ ''(pid='' @ str_int (pid self) @ '')''"

text \<open>\<open>channel_get\<close>. A queue object is always true, so \<open>if self.channel:\<close> asks whether
  a channel is configured.\<close>

definition channel_get :: "'m \<Rightarrow> 'm DistLoader \<Rightarrow> 'm outcome \<times> 'm DistLoader" where
  "channel_get out self =
     (case channel self of
        Some a \<Rightarrow> queue_get a self
      | None \<Rightarrow> (Returned out, self))"

text \<open>
  The loop \<open>while not self.channel.empty(): self.channel.get_nowait()\<close> of
  \<open>reset_channel\<close>. With no channel the first test already fails with an
  \<open>AttributeError\<close>.
\<close>

function drain_loop :: "'m DistLoader \<Rightarrow> unit outcome \<times> 'm DistLoader" where
  "drain_loop self =
     (case channel self of
        None \<Rightarrow> (Raised (NoneType_has_no_attribute ''empty''), self)
      | Some a \<Rightarrow>
          if queue_empty a self then (Returned (), self)
          else (case get_nowait a self of
                  (Returned m, self') \<Rightarrow> drain_loop self'
                | (Raised e, self') \<Rightarrow> (Raised e, self')
                | (Blocked, self') \<Rightarrow> (Blocked, self')))"
  by pat_completeness auto
termination
  by (relation "measure (\<lambda>self. case channel self of None \<Rightarrow> 0 | Some a \<Rightarrow> length (queues self a))")
     (auto simp: get_nowait_def queue_empty_def split: list.splits)

declare drain_loop.simps [simp del]

text \<open>\<open>reset_channel(channel=None)\<close>.\<close>

definition reset_channel :: "ref option \<Rightarrow> 'm DistLoader \<Rightarrow> unit outcome \<times> 'm DistLoader" where
  "reset_channel channel_arg self =
     (case drain_loop self of
        (Raised e, s1) \<Rightarrow> (Raised e, s1)
      | (Blocked, s1) \<Rightarrow> (Blocked, s1)
      | (Returned u, s1) \<Rightarrow>
          (let s2 = barrier s1;
               (c, s3) = (case channel_arg of Some c \<Rightarrow> (c, s2) | None \<Rightarrow> mp_Queue s2);
               s4 = s3\<lparr>channel := Some c, trace := trace s3 @ [Install c]\<rparr>
           in case dist_sampler s4 of
                None \<Rightarrow> (Raised (NoneType_has_no_attribute ''channel''), s4)
              | Some smp \<Rightarrow>
                  (Returned (),
                   s4\<lparr>dist_sampler := Some (smp\<lparr>sampler_channel := Some c\<rparr>),
                      trace := trace s4 @ [Propagate c]\<rparr>)))"

text \<open>
  \<open>worker_init_fn(worker_id)\<close>. The sampler's \<open>init_sampler_instance\<close> is external: it
  is a parameter that, given the sampler, says whether the call raised and what the
  sampler is afterwards. The logging calls have no effect on the state.
\<close>

definition init_fn_message :: "'m DistLoader \<Rightarrow> string" where
  "init_fn_message self =
     ''`'' @ loader_repr self @ ''.init_fn()` could not initialize the '' @
     ''worker loop of the neighbor sampler''"

definition worker_init_fn ::
  "(DistNeighborSampler \<Rightarrow> pyexc option \<times> DistNeighborSampler) \<Rightarrow> int \<Rightarrow> 'm DistLoader
     \<Rightarrow> unit outcome \<times> 'm DistLoader" where
  "worker_init_fn init_sampler_instance worker_id self =
     (let num_sampler_proc = (if num_workers self > 0 then num_workers self else 1);
          s1 = self\<lparr>current_ctx_worker := Some
                 \<lparr>world_size = world_size (current_ctx self) * num_sampler_proc,
                  rank = rank (current_ctx self) * num_sampler_proc + worker_id,
                  global_world_size = world_size (current_ctx self) * num_sampler_proc,
                  global_rank = rank (current_ctx self) * num_sampler_proc + worker_id,
                  group_name = ''mp_sampling_worker''\<rparr>\<rparr>
      in case dist_sampler s1 of
           None \<Rightarrow> (Raised (NoneType_has_no_attribute ''init_sampler_instance''), s1)
         | Some smp \<Rightarrow>
             (case init_sampler_instance smp of
                (None, smp') \<Rightarrow> (Returned (), s1\<lparr>dist_sampler := Some smp'\<rparr>)
              | (Some e, smp') \<Rightarrow>
                  (if isinstance_RuntimeError e
                   then (Raised (PyExc RuntimeError (init_fn_message s1)),
                         s1\<lparr>dist_sampler := Some smp'\<rparr>)
                   else (Raised e, s1\<lparr>dist_sampler := Some smp'\<rparr>))))"

text \<open>\<open>__enter__\<close>.\<close>

definition loader_enter :: "'m DistLoader \<Rightarrow> DataLoaderIterator outcome \<times> 'm DistLoader" where
  "loader_enter self =
     (let s1 = self\<lparr>prefetch_old := Some (prefetch_factor self)\<rparr>;
          s2 = s1\<lparr>prefetch_factor := 1\<rparr>;
          (it, s3) = get_iterator s2;
          s4 = s3\<lparr>iterator := Some it\<rparr>
      in (Returned it, s4))"

text \<open>
  \<open>__exit__\<close>. Reading \<open>self._prefetch_old\<close> before \<open>__enter__\<close> has assigned it is an
  \<open>AttributeError\<close>.
\<close>

definition loader_exit :: "'m DistLoader \<Rightarrow> unit outcome \<times> 'm DistLoader" where
  "loader_exit self =
     (case (case channel self of
              Some a \<Rightarrow> reset_channel None self
            | None \<Rightarrow> (Returned (), self)) of
        (Raised e, s1) \<Rightarrow> (Raised e, s1)
      | (Blocked, s1) \<Rightarrow> (Blocked, s1)
      | (Returned u, s1) \<Rightarrow>
          (if truthy_iterator (iterator s1)
           then (let s2 = s1\<lparr>iterator := None\<rparr>;
                     s3 = barrier s2;
                     s4 = s3\<lparr>iterator := None\<rparr>
                 in case prefetch_old s4 of
                      None \<Rightarrow> (Raised (has_no_attribute (class_name s4) ''_prefetch_old''), s4)
                    | Some d \<Rightarrow> (Returned (), s4\<lparr>prefetch_factor := d\<rparr>))
           else (Returned (), s1)))"

text \<open>
  The global rank a worker ends up with: the \<open>global_rank\<close> of the context that
  \<open>worker_init_fn\<close> leaves in \<open>self.current_ctx_worker\<close>.
\<close>

definition worker_global_rank ::
  "(DistNeighborSampler \<Rightarrow> pyexc option \<times> DistNeighborSampler) \<Rightarrow> 'm DistLoader \<Rightarrow> int
     \<Rightarrow> int option" where
  "worker_global_rank init_sampler_instance self worker_id =
     map_option global_rank
       (current_ctx_worker (snd (worker_init_fn init_sampler_instance worker_id self)))"

section \<open>Reading a decimal numeral\<close>

text \<open>
  Not part of the loader: the usual meaning of a decimal integer literal, against which
  the \<open>pid=<integer>\<close> part of the representation is checked.
\<close>

definition digit_value :: "char \<Rightarrow> nat option" where
  "digit_value c =
     (let n = (of_char c :: nat) in if 48 \<le> n \<and> n \<le> 57 then Some (n - 48) else None)"

fun read_digits :: "nat \<Rightarrow> string \<Rightarrow> nat option" where
  "read_digits acc [] = Some acc"
| "read_digits acc (c # cs) =
     (case digit_value c of None \<Rightarrow> None | Some d \<Rightarrow> read_digits (10 * acc + d) cs)"

definition read_nat :: "string \<Rightarrow> nat option" where
  "read_nat s = (if s = [] then None else read_digits 0 s)"

definition read_int :: "string \<Rightarrow> int option" where
  "read_int s =
     (case s of
        [] \<Rightarrow> None
      | c # cs \<Rightarrow>
          if c = CHR ''-'' then map_option (\<lambda>n. - int n) (read_nat cs)
          else map_option int (read_nat s))"

section \<open>Concrete loaders\<close>

text \<open>
  A loader of group 1 of 2 with three sampling workers, process 4242, prefetch depth 8,
  five batches, and one queue (address 0) that holds the messages 10 and 20 and is shared
  with its sampler.
\<close>

definition example_loader :: "nat DistLoader" where
  "example_loader =
     \<lparr>class_name = ''DistLoader'',
      dist_sampler = Some \<lparr>sampler_channel = Some 0\<rparr>,
      current_ctx = \<lparr>world_size = 2, rank = 1, global_world_size = 2, global_rank = 1,
                     group_name = ''loader''\<rparr>,
      channel = Some 0,
      pid = 4242,
      num_workers = 3,
      current_ctx_worker = None,
      prefetch_factor = 8,
      prefetch_old = None,
      iterator = None,
      num_batches = 5,
      queues = (\<lambda>a. [])(0 := [10, 20]),
      next_ref = 1,
      trace = []\<rparr>"

text \<open>The loaders of a job of two groups: the loader of group \<open>R\<close> has rank \<open>R\<close>.\<close>

definition example_job :: "int \<Rightarrow> nat DistLoader" where
  "example_job R =
     example_loader\<lparr>current_ctx :=
       \<lparr>world_size = 2, rank = R, global_world_size = 2, global_rank = R,
        group_name = ''loader''\<rparr>\<rparr>"

text \<open>A sampler whose \<open>init_sampler_instance\<close> returns, and one where it raises.\<close>

definition init_ok :: "DistNeighborSampler \<Rightarrow> pyexc option \<times> DistNeighborSampler" where
  "init_ok smp = (None, smp)"

definition init_fails :: "pyexc \<Rightarrow> DistNeighborSampler \<Rightarrow> pyexc option \<times> DistNeighborSampler" where
  "init_fails e smp = (Some e, smp)"

section \<open>Properties\<close>

subsection \<open>Auxiliary facts\<close>

lemma current_ctx_worker_after:
  "current_ctx_worker (snd (worker_init_fn init w self)) =
     Some \<lparr>world_size = world_size (current_ctx self) * (if num_workers self > 0 then num_workers self else 1),
           rank = rank (current_ctx self) * (if num_workers self > 0 then num_workers self else 1) + w,
           global_world_size = world_size (current_ctx self) * (if num_workers self > 0 then num_workers self else 1),
           global_rank = rank (current_ctx self) * (if num_workers self > 0 then num_workers self else 1) + w,
           group_name = ''mp_sampling_worker''\<rparr>"
  by (simp add: worker_init_fn_def Let_def split: option.splits prod.splits)

lemma worker_global_rank_eq:
  "worker_global_rank init self w =
     Some (rank (current_ctx self) * (if num_workers self > 0 then num_workers self else 1) + w)"
  by (simp add: worker_global_rank_def current_ctx_worker_after)

lemma mixed_radix_inj:
  fixes P :: int
  assumes "0 \<le> w" "w < P" "0 \<le> w'" "w' < P" "R * P + w = R' * P + w'"
  shows "R = R' \<and> w = w'"
proof -
  have a: "(R * P + w) div P = R" using assms(1,2) by simp
  have b: "(R' * P + w') div P = R'" using assms(3,4) by simp
  have "R = (R * P + w) div P" using a by simp
  also have "\<dots> = (R' * P + w') div P" by (simp only: assms(5))
  also have "\<dots> = R'" by (rule b)
  finally have "R = R'" .
  then show ?thesis using assms(5) by simp
qed

lemma mixed_radix_range:
  fixes P :: int
  assumes "0 \<le> R" "R < W" "0 \<le> w" "w < P"
  shows "0 \<le> R * P + w \<and> R * P + w < W * P"
proof -
  have "0 \<le> R * P" using assms by simp
  moreover have "(R + 1) * P \<le> W * P" using assms by (intro mult_right_mono) auto
  ultimately show ?thesis using assms by (simp add: algebra_simps)
qed

lemma mixed_radix_surj:
  fixes P :: int
  assumes "0 < P" "0 \<le> g" "g < W * P"
  shows "0 \<le> g div P \<and> g div P < W \<and> 0 \<le> g mod P \<and> g mod P < P \<and> (g div P) * P + g mod P = g"
proof -
  have "g div P < W"
  proof (rule ccontr)
    assume "\<not> g div P < W"
    then have le: "W * P \<le> (g div P) * P" using assms(1) by (intro mult_right_mono) auto
    have "0 \<le> g mod P" using assms(1) by simp
    moreover have "g = (g div P) * P + g mod P" by simp
    ultimately show False using le assms(3) by linarith
  qed
  moreover have "0 \<le> g div P" using assms by (simp add: pos_imp_zdiv_nonneg_iff)
  ultimately show ?thesis using assms by simp
qed

lemma global_rank_bij:
  fixes W P :: int
  assumes "0 < P"
  shows "inj_on (\<lambda>(R, w). R * P + w) ({0..<W} \<times> {0..<P}) \<and>
         (\<lambda>(R, w). R * P + w) ` ({0..<W} \<times> {0..<P}) = {0..<W * P}"
proof (intro conjI)
  show "inj_on (\<lambda>(R, w). R * P + w) ({0..<W} \<times> {0..<P})"
    by (rule inj_onI) (auto dest: mixed_radix_inj)
next
  show "(\<lambda>(R, w). R * P + w) ` ({0..<W} \<times> {0..<P}) = {0..<W * P}"
  proof (intro equalityI subsetI)
    fix g assume "g \<in> (\<lambda>(R, w). R * P + w) ` ({0..<W} \<times> {0..<P})"
    then show "g \<in> {0..<W * P}" using mixed_radix_range [of _ W _ P] by auto
  next
    fix g assume g: "g \<in> {0..<W * P}"
    then have "0 \<le> g" "g < W * P" by auto
    from mixed_radix_surj [OF assms this]
    have "(g div P, g mod P) \<in> {0..<W} \<times> {0..<P}" and "g = (\<lambda>(R, w). R * P + w) (g div P, g mod P)"
      by auto
    then show "g \<in> (\<lambda>(R, w). R * P + w) ` ({0..<W} \<times> {0..<P})" by (rule_tac image_eqI)
  qed
qed

lemma digit_value_digit_char: "d < 10 \<Longrightarrow> digit_value (digit_char d) = Some d"
proof -
  assume "d < 10"
  then have "d = 0 \<or> d = 1 \<or> d = 2 \<or> d = 3 \<or> d = 4 \<or> d = 5 \<or> d = 6 \<or> d = 7 \<or> d = 8 \<or> d = 9"
    by arith
  then show ?thesis
    by (elim disjE) (simp_all add: digit_value_def digit_char_def)
qed

lemma read_digits_snoc:
  "read_digits acc (xs @ [c]) =
     (case read_digits acc xs of None \<Rightarrow> None
      | Some v \<Rightarrow> (case digit_value c of None \<Rightarrow> None | Some d \<Rightarrow> Some (10 * v + d)))"
  by (induction xs arbitrary: acc) (auto split: option.splits)

lemma str_nat_nonempty: "str_nat n \<noteq> []"
  by (subst str_nat.simps) simp

lemma read_digits_str_nat: "read_digits 0 (str_nat n) = Some n"
proof (induction n rule: str_nat.induct)
  case (1 n)
  show ?case
  proof (cases "n < 10")
    case True
    then show ?thesis by (subst str_nat.simps) (simp add: digit_value_digit_char)
  next
    case False
    with 1 have "read_digits 0 (str_nat (n div 10)) = Some (n div 10)" by simp
    with False show ?thesis
      by (subst str_nat.simps) (simp add: read_digits_snoc digit_value_digit_char)
  qed
qed

lemma read_nat_str_nat: "read_nat (str_nat n) = Some n"
  by (simp add: read_nat_def str_nat_nonempty read_digits_str_nat)

lemma str_nat_no_minus: "str_nat n = c # cs \<Longrightarrow> c \<noteq> CHR ''-''"
proof
  assume "str_nat n = c # cs" and "c = CHR ''-''"
  then have "read_digits 0 (str_nat n) = None" by (simp add: digit_value_def)
  then show False by (simp add: read_digits_str_nat)
qed

lemma read_int_str_int: "read_int (str_int i) = Some i"
proof (cases "i < 0")
  case True
  then show ?thesis by (simp add: read_int_def str_int_def read_nat_str_nat)
next
  case False
  obtain c cs where s: "str_nat (nat i) = c # cs"
    using str_nat_nonempty [of "nat i"] by (cases "str_nat (nat i)") auto
  then have "c \<noteq> CHR ''-''" by (rule str_nat_no_minus)
  with False s show ?thesis
    using read_nat_str_nat [of "nat i"] by (simp add: read_int_def str_int_def)
qed


lemma drain_loop_no_channel:
  "channel self = None \<Longrightarrow> drain_loop self = (Raised (NoneType_has_no_attribute ''empty''), self)"
  by (subst drain_loop.simps) simp

lemma drain_loop_drains:
  "channel self = Some a \<Longrightarrow> queues self a = ms \<Longrightarrow>
   drain_loop self =
     (Returned (), self\<lparr>queues := (queues self)(a := []), trace := trace self @ map (Pop a) ms\<rparr>)"
proof (induction ms arbitrary: self)
  case Nil
  then have "(queues self)(a := []) = queues self" by auto
  with Nil show ?case by (subst drain_loop.simps) (simp add: queue_empty_def)
next
  case (Cons m ms)
  let ?s = "self\<lparr>queues := (queues self)(a := ms), trace := trace self @ [Pop a m]\<rparr>"
  have step: "drain_loop self = drain_loop ?s"
    using Cons.prems by (subst drain_loop.simps) (simp add: queue_empty_def get_nowait_def)
  have "channel ?s = Some a" "queues ?s a = ms" using Cons.prems by simp_all
  from Cons.IH [OF this] have "drain_loop ?s =
      (Returned (), ?s\<lparr>queues := (queues ?s)(a := []), trace := trace ?s @ map (Pop a) ms\<rparr>)" .
  moreover have "(queues ?s)(a := []) = (queues self)(a := [])" by simp
  ultimately show ?case by (simp add: step fun_upd_def cong: if_cong)
qed

lemma reset_channel_returns:
  assumes "channel self = Some a" and "dist_sampler self = Some smp"
  shows "reset_channel arg self =
     (Returned (),
      (case arg of
         Some c \<Rightarrow>
           self\<lparr>queues := (queues self)(a := []),
                channel := Some c,
                dist_sampler := Some (smp\<lparr>sampler_channel := Some c\<rparr>),
                trace := trace self @ map (Pop a) (queues self a) @ [Barrier, Install c, Propagate c]\<rparr>
       | None \<Rightarrow>
           self\<lparr>queues := (queues self)(a := [], next_ref self := []),
                next_ref := Suc (next_ref self),
                channel := Some (next_ref self),
                dist_sampler := Some (smp\<lparr>sampler_channel := Some (next_ref self)\<rparr>),
                trace := trace self @ map (Pop a) (queues self a) @
                         [Barrier, Install (next_ref self), Propagate (next_ref self)]\<rparr>))"
  using assms
  by (cases arg) (simp_all add: reset_channel_def drain_loop_drains [OF assms(1) refl] barrier_def mp_Queue_def Let_def)

lemma reset_channel_no_channel:
  "channel self = None \<Longrightarrow> reset_channel arg self = (Raised (NoneType_has_no_attribute ''empty''), self)"
  by (simp add: reset_channel_def drain_loop_no_channel)

lemma reset_channel_no_sampler:
  assumes "channel self = Some a" and "dist_sampler self = None"
  shows "fst (reset_channel arg self) = Raised (NoneType_has_no_attribute ''channel'') \<and>
         queues (snd (reset_channel arg self)) a = [] \<and>
         channel (snd (reset_channel arg self)) =
           Some (case arg of Some c \<Rightarrow> c | None \<Rightarrow> next_ref self)"
  using assms
  by (cases arg)
     (simp_all add: reset_channel_def drain_loop_drains [OF assms(1) refl] barrier_def
        mp_Queue_def Let_def)

lemma loader_enter_eq:
  "loader_enter self =
     (Returned \<lparr>iter_id = next_ref self, iter_len = num_batches self\<rparr>,
      self\<lparr>prefetch_old := Some (prefetch_factor self),
           prefetch_factor := 1,
           next_ref := Suc (next_ref self),
           iterator := Some \<lparr>iter_id = next_ref self, iter_len = num_batches self\<rparr>\<rparr>)"
  by (simp add: loader_enter_def get_iterator_def Let_def)

lemma loader_exit_after_reset:
  assumes "fst r = Returned ()" and "truthy_iterator (iterator (snd r))"
    and "prefetch_old (snd r) = Some d"
  shows "(case r of (Raised e, s1) \<Rightarrow> (Raised e, s1) | (Blocked, s1) \<Rightarrow> (Blocked, s1)
          | (Returned u, s1) \<Rightarrow>
              (if truthy_iterator (iterator s1)
               then (let s2 = s1\<lparr>iterator := None\<rparr>; s3 = barrier s2; s4 = s3\<lparr>iterator := None\<rparr>
                     in case prefetch_old s4 of
                          None \<Rightarrow> (Raised (has_no_attribute (class_name s4) ''_prefetch_old''), s4)
                        | Some d \<Rightarrow> (Returned (), s4\<lparr>prefetch_factor := d\<rparr>))
               else (Returned (), s1))) =
         (Returned (), (snd r)\<lparr>iterator := None, trace := trace (snd r) @ [Barrier],
                                prefetch_factor := d\<rparr>)"
  using assms by (cases r) (simp add: barrier_def Let_def)

lemma loader_exit_restores:
  assumes it: "truthy_iterator (iterator self)" and old: "prefetch_old self = Some d"
    and smp: "channel self = None \<or> dist_sampler self \<noteq> None"
  shows "fst (loader_exit self) = Returned () \<and>
         prefetch_factor (snd (loader_exit self)) = d \<and>
         iterator (snd (loader_exit self)) = None"
proof (cases "channel self")
  case None
  with it old show ?thesis by (simp add: loader_exit_def barrier_def Let_def)
next
  case (Some a)
  with smp obtain s where s: "dist_sampler self = Some s" by auto
  let ?r = "reset_channel None self"
  have r: "fst ?r = Returned ()" "truthy_iterator (iterator (snd ?r))" "prefetch_old (snd ?r) = Some d"
    using it old by (simp_all add: reset_channel_returns [OF Some s])
  have "loader_exit self =
      (Returned (), (snd ?r)\<lparr>iterator := None, trace := trace (snd ?r) @ [Barrier],
                              prefetch_factor := d\<rparr>)"
    unfolding loader_exit_def using Some loader_exit_after_reset [OF r] by simp
  then show ?thesis by simp
qed

text \<open>
  C1. For a job of \<open>W \<ge> 1\<close> groups whose loaders all have \<open>num_workers = N \<ge> 0\<close>, the
  loader of group \<open>R\<close> having rank \<open>R\<close>: over all ranks \<open>R\<close> in \<open>[0, W)\<close> and worker ids
  \<open>w\<close> in \<open>[0, max N 1)\<close>, no two pairs get the same global rank from \<open>worker_init_fn\<close>,
  and the global ranks handed out are exactly \<open>0, \<dots>, W * max N 1 - 1\<close>.
\<close>

theorem global_rank_unique:
  fixes W N :: int
  assumes "1 \<le> W" and "0 \<le> N"
    and job: "\<And>R. 0 \<le> R \<Longrightarrow> R < W \<Longrightarrow>
               world_size (current_ctx (job R)) = W \<and> rank (current_ctx (job R)) = R \<and>
               num_workers (job R) = N"
  shows "inj_on (\<lambda>(R, w). worker_global_rank init (job R) w) ({0..<W} \<times> {0..<max N 1}) \<and>
         (\<lambda>(R, w). worker_global_rank init (job R) w) ` ({0..<W} \<times> {0..<max N 1}) =
           Some ` {0..<W * max N 1}"
proof -
  let ?P = "max N 1"
  let ?D = "{0..<W} \<times> {0..<?P}"
  have P: "0 < ?P" by simp
  have eq: "(\<lambda>(R, w). worker_global_rank init (job R) w) x = (Some \<circ> (\<lambda>(R, w). R * ?P + w)) x"
    if "x \<in> ?D" for x
    using that job by (cases x) (auto simp: worker_global_rank_eq)
  have inj: "inj_on (Some \<circ> (\<lambda>(R, w). R * ?P + w)) ?D"
    using global_rank_bij [OF P, of W] by (auto intro!: comp_inj_on)
  have img: "(Some \<circ> (\<lambda>(R, w). R * ?P + w)) ` ?D = Some ` {0..<W * ?P}"
  proof -
    have "(Some \<circ> (\<lambda>(R, w). R * ?P + w)) ` ?D = Some ` ((\<lambda>(R, w). R * ?P + w) ` ?D)"
      by (rule image_comp [symmetric])
    also have "\<dots> = Some ` {0..<W * ?P}"
      using global_rank_bij [OF P, of W] by (simp only:)
    finally show ?thesis .
  qed
  show ?thesis
  proof (intro conjI)
    show "inj_on (\<lambda>(R, w). worker_global_rank init (job R) w) ?D"
      using inj eq by (simp cong: inj_on_cong)
    show "(\<lambda>(R, w). worker_global_rank init (job R) w) ` ?D = Some ` {0..<W * ?P}"
      using img eq by (simp cong: image_cong)
  qed
qed

theorem global_rank_unique_witness:
  "(1::int) \<le> 2 \<and> (0::int) \<le> 3 \<and>
   inj_on (\<lambda>(R, w). worker_global_rank init_ok (example_job R) w) ({0..<2} \<times> {0..<max 3 1}) \<and>
   (\<lambda>(R, w). worker_global_rank init_ok (example_job R) w) ` ({0..<2} \<times> {0..<max 3 1}) =
     Some ` {0..<2 * max 3 1}"
  using global_rank_unique [of 2 3 example_job init_ok]
  by (simp add: example_job_def example_loader_def)

text \<open>
  C2. Whatever the parent context, the worker id and \<open>num_workers\<close> are, and whatever the
  sampler does afterwards, \<open>worker_init_fn\<close> leaves a context with
  \<open>global_world_size = W * P\<close>, \<open>global_rank = R * P + w\<close> and group name
  \<open>mp_sampling_worker\<close>, where \<open>P\<close> is \<open>num_workers\<close> if that is positive and 1 otherwise
  (which is \<open>max num_workers 1\<close>).
\<close>

theorem worker_context_formula:
  "\<exists>ctx P. P = (if num_workers self > 0 then num_workers self else 1) \<and>
      P = max (num_workers self) 1 \<and>
      current_ctx_worker (snd (worker_init_fn init w self)) = Some ctx \<and>
      global_world_size ctx = world_size (current_ctx self) * P \<and>
      global_rank ctx = rank (current_ctx self) * P + w \<and>
      group_name ctx = ''mp_sampling_worker''"
  by (simp add: current_ctx_worker_after)

text \<open>
  C9. In the context \<open>worker_init_fn\<close> derives, the local fields carry the same values
  as the global ones: \<open>world_size = global_world_size = W * P\<close> and
  \<open>rank = global_rank = R * P + w\<close>. They are computed from those expressions, not copied
  from the parent; they coincide with the parent's \<open>W\<close> and \<open>R\<close> only where the
  expressions do (pool size 1, worker 0).
\<close>

theorem worker_context_local_equals_global:
  "\<exists>ctx P. P = (if num_workers self > 0 then num_workers self else 1) \<and>
      current_ctx_worker (snd (worker_init_fn init w self)) = Some ctx \<and>
      world_size ctx = global_world_size ctx \<and>
      world_size ctx = world_size (current_ctx self) * P \<and>
      rank ctx = global_rank ctx \<and>
      rank ctx = rank (current_ctx self) * P + w"
  by (simp add: current_ctx_worker_after)

text \<open>
  C8. The representation of a loader is its class name, then \<open>(pid=\<close>, then a decimal
  numeral that reads back as the loader's process identifier, then \<open>)\<close>.
\<close>

theorem repr_format:
  "\<exists>ds. loader_repr self = class_name self @ ''(pid='' @ ds @ '')'' \<and> read_int ds = Some (pid self)"
  by (rule exI [of _ "str_int (pid self)"]) (simp add: loader_repr_def read_int_str_int)

text \<open>
  C3. On a loader with a channel \<open>a\<close> and a sampler, \<open>reset_channel\<close> returns, and what
  it did, in order, is: pop every message of \<open>a\<close> (first in, first out) until \<open>a\<close> is
  empty, the barrier, the installation of a channel \<open>c\<close> as the loader's channel, the
  update of the sampler's channel to \<open>c\<close>. Here \<open>c\<close> is the supplied channel or, when none
  was supplied, a queue that did not exist before and is empty. Afterwards the loader's
  channel and the sampler's channel are the same object \<open>c\<close>.
\<close>

theorem reset_channel_protocol:
  assumes "channel self = Some a" and "dist_sampler self = Some smp"
  shows "\<exists>c s'. reset_channel arg self = (Returned (), s') \<and>
           trace s' = trace self @ map (Pop a) (queues self a) @ [Barrier, Install c, Propagate c] \<and>
           (case arg of
              Some c' \<Rightarrow> c = c'
            | None \<Rightarrow> c = next_ref self \<and> next_ref s' = Suc c \<and> queues s' c = []) \<and>
           channel s' = Some c \<and>
           map_option sampler_channel (dist_sampler s') = Some (Some c)"
  by (cases arg) (simp_all add: reset_channel_returns [OF assms])

theorem reset_channel_protocol_witness:
  "channel example_loader = Some 0 \<and>
   dist_sampler example_loader = Some \<lparr>sampler_channel = Some 0\<rparr> \<and>
   (\<exists>c s'. reset_channel None example_loader = (Returned (), s') \<and>
      trace s' = [Pop 0 10, Pop 0 20, Barrier, Install c, Propagate c] \<and>
      c = 1 \<and> queues s' c = [] \<and> channel s' = Some c \<and>
      map_option sampler_channel (dist_sampler s') = Some (Some c))"
  using reset_channel_protocol [of example_loader 0 "\<lparr>sampler_channel = Some 0\<rparr>" None]
  by (auto simp add: example_loader_def)

text \<open>
  C6. Run on its own (the model has no concurrent producer), a reset of a loader whose
  channel is an existing queue \<open>a\<close> leaves \<open>a\<close> empty: \<open>empty()\<close> holds of it and it
  contains no message. With no channel supplied the loader's new channel is an object
  other than \<open>a\<close>; with a channel supplied, that very channel is installed. This holds
  whether or not the call gets as far as the sampler update.
\<close>

theorem reset_channel_drains_old:
  assumes "channel self = Some a" and "a < next_ref self"
  shows "queue_empty a (snd (reset_channel arg self)) \<and>
         queues (snd (reset_channel arg self)) a = [] \<and>
         (case arg of
            None \<Rightarrow> (\<exists>c. channel (snd (reset_channel None self)) = Some c \<and> c \<noteq> a)
          | Some c \<Rightarrow> channel (snd (reset_channel (Some c) self)) = Some c)"
proof (cases "dist_sampler self")
  case None
  from reset_channel_no_sampler [OF assms(1) None, of arg] assms(2) show ?thesis
    by (cases arg) (auto simp: queue_empty_def)
next
  case (Some smp)
  from assms(2) show ?thesis
    by (cases arg) (auto simp: queue_empty_def reset_channel_returns [OF assms(1) Some])
qed

theorem reset_channel_drains_old_witness:
  "channel example_loader = Some 0 \<and> 0 < next_ref example_loader \<and>
   queues example_loader 0 = [10, 20] \<and>
   queue_empty 0 (snd (reset_channel None example_loader)) \<and>
   queues (snd (reset_channel None example_loader)) 0 = [] \<and>
   (\<exists>c. channel (snd (reset_channel None example_loader)) = Some c \<and> c \<noteq> 0)"
  using reset_channel_drains_old [of example_loader 0 None]
  by (simp add: example_loader_def)

text \<open>
  C10. \<open>reset_channel\<close> returns exactly when the loader has both a channel and a
  sampler. On a loader without a channel it raises the \<open>AttributeError\<close> of reading
  \<open>empty\<close> on \<open>None\<close> and changes nothing (no barrier, no new channel): it is not a
  no-op. The warm-up exit of such a loader nevertheless completes, because it only
  calls \<open>reset_channel\<close> under \<open>if self.channel:\<close>.
\<close>

theorem reset_channel_precondition:
  "(fst (reset_channel arg self) = Returned ()) =
     (channel self \<noteq> None \<and> dist_sampler self \<noteq> None) \<and>
   (channel self = None \<longrightarrow>
      reset_channel arg self = (Raised (NoneType_has_no_attribute ''empty''), self) \<and>
      exc_class_of (NoneType_has_no_attribute ''empty'') = AttributeError \<and>
      fst (loader_exit (snd (loader_enter self))) = Returned ())"
proof (intro conjI impI)
  show "(fst (reset_channel arg self) = Returned ()) =
     (channel self \<noteq> None \<and> dist_sampler self \<noteq> None)"
  proof (cases "channel self")
    case None
    then show ?thesis by (simp add: reset_channel_no_channel)
  next
    case (Some a)
    show ?thesis
    proof (cases "dist_sampler self")
      case None
      with Some reset_channel_no_sampler [OF Some None, of arg] show ?thesis by simp
    next
      case (Some smp)
      with \<open>channel self = Some a\<close> show ?thesis
        by (cases arg) (simp_all add: reset_channel_returns [OF \<open>channel self = Some a\<close> Some])
    qed
  qed
next
  assume "channel self = None"
  then show "reset_channel arg self = (Raised (NoneType_has_no_attribute ''empty''), self)"
    by (rule reset_channel_no_channel)
next
  show "exc_class_of (NoneType_has_no_attribute ''empty'') = AttributeError"
    by (simp add: NoneType_has_no_attribute_def has_no_attribute_def)
next
  assume "channel self = None"
  then show "fst (loader_exit (snd (loader_enter self))) = Returned ()"
    by (simp add: loader_enter_eq loader_exit_def truthy_iterator_def barrier_def Let_def)
qed

theorem reset_channel_precondition_witness:
  "channel (example_loader\<lparr>channel := None\<rparr>) = None \<and>
   fst (reset_channel None (example_loader\<lparr>channel := None\<rparr>)) \<noteq> Returned () \<and>
   reset_channel None (example_loader\<lparr>channel := None\<rparr>) =
     (Raised (NoneType_has_no_attribute ''empty''), example_loader\<lparr>channel := None\<rparr>) \<and>
   fst (loader_exit (snd (loader_enter (example_loader\<lparr>channel := None\<rparr>)))) = Returned ()"
  using reset_channel_precondition [of None "example_loader\<lparr>channel := None\<rparr>"]
  by (simp add: example_loader_def)

text \<open>
  C7. Without a channel, \<open>channel_get out\<close> returns \<open>out\<close> and changes nothing. With a
  channel it never returns \<open>out\<close>: while the queue is empty the call waits (it does not
  return), and when the queue holds a message the call returns the oldest one and
  removes it.
\<close>

theorem channel_get_passthrough:
  "(channel self = None \<longrightarrow> channel_get out self = (Returned out, self)) \<and>
   (\<forall>a. channel self = Some a \<and> queues self a = [] \<longrightarrow> channel_get out self = (Blocked, self)) \<and>
   (\<forall>a m ms. channel self = Some a \<and> queues self a = m # ms \<longrightarrow>
      fst (channel_get out self) = Returned m \<and>
      queues (snd (channel_get out self)) a = ms)"
  by (auto simp: channel_get_def queue_get_def)

theorem channel_get_passthrough_witness:
  "channel_get 99 (example_loader\<lparr>channel := None\<rparr>) =
     (Returned 99, example_loader\<lparr>channel := None\<rparr>) \<and>
   channel_get 99 (example_loader\<lparr>queues := (\<lambda>a. [])\<rparr>) =
     (Blocked, example_loader\<lparr>queues := (\<lambda>a. [])\<rparr>) \<and>
   fst (channel_get 99 example_loader) = Returned 10 \<and>
   queues (snd (channel_get 99 example_loader)) 0 = [20]"
  using channel_get_passthrough [of "example_loader\<lparr>channel := None\<rparr>" 99]
    channel_get_passthrough [of "example_loader\<lparr>queues := (\<lambda>a. [])\<rparr>" 99]
    channel_get_passthrough [of example_loader 99]
  by (simp add: example_loader_def)

text \<open>
  A loader with batches, for comparison: entered at depth 8, the example loader without
  a channel leaves the scope at depth 8 again, with the iterator dropped and the
  teardown barrier passed.
\<close>

lemma warmup_exit_with_batches:
  "prefetch_factor (example_loader\<lparr>channel := None\<rparr>) = 8 \<and>
   num_batches (example_loader\<lparr>channel := None\<rparr>) = 5 \<and>
   fst (loader_exit (snd (loader_enter (example_loader\<lparr>channel := None\<rparr>)))) = Returned () \<and>
   prefetch_factor (snd (loader_exit (snd (loader_enter (example_loader\<lparr>channel := None\<rparr>))))) = 8 \<and>
   iterator (snd (loader_exit (snd (loader_enter (example_loader\<lparr>channel := None\<rparr>))))) = None \<and>
   trace (snd (loader_exit (snd (loader_enter (example_loader\<lparr>channel := None\<rparr>))))) = [Barrier]"
  by (simp add: loader_enter_eq loader_exit_def truthy_iterator_def barrier_def example_loader_def)

text \<open>
  C5. The claim is what \<open>__enter__\<close> and \<open>__exit__\<close> set out to do: \<open>__enter__\<close> saves the
  depth in \<open>_prefetch_old\<close> for \<open>__exit__\<close> to put back. The code misses it on a loader
  with no batches. Its iterator has length 0, so \<open>if self._iterator:\<close> is false although
  an iterator is stored, and \<open>__exit__\<close> skips the whole block: entered at depth 8, the
  loader leaves the scope normally with depth 1, the iterator still stored and no
  teardown barrier passed.
\<close>

theorem warmup_exit_skips_restore:
  "prefetch_factor (example_loader\<lparr>channel := None, num_batches := 0\<rparr>) = 8 \<and>
   loader_enter (example_loader\<lparr>channel := None, num_batches := 0\<rparr>) =
     (Returned \<lparr>iter_id = 1, iter_len = 0\<rparr>,
      example_loader\<lparr>channel := None, num_batches := 0, prefetch_old := Some 8,
        prefetch_factor := 1, next_ref := 2,
        iterator := Some \<lparr>iter_id = 1, iter_len = 0\<rparr>\<rparr>) \<and>
   fst (loader_exit (snd (loader_enter (example_loader\<lparr>channel := None, num_batches := 0\<rparr>)))) =
     Returned () \<and>
   prefetch_factor
     (snd (loader_exit (snd (loader_enter (example_loader\<lparr>channel := None, num_batches := 0\<rparr>))))) = 1 \<and>
   prefetch_old
     (snd (loader_exit (snd (loader_enter (example_loader\<lparr>channel := None, num_batches := 0\<rparr>))))) =
     Some 8 \<and>
   iterator
     (snd (loader_exit (snd (loader_enter (example_loader\<lparr>channel := None, num_batches := 0\<rparr>))))) =
     Some \<lparr>iter_id = 1, iter_len = 0\<rparr> \<and>
   trace
     (snd (loader_exit (snd (loader_enter (example_loader\<lparr>channel := None, num_batches := 0\<rparr>))))) = []"
  by (simp add: loader_enter_eq loader_exit_def truthy_iterator_def example_loader_def)

text \<open>
  C4, as stated, fails: the error raised does not name the worker. For a sampler whose
  initialisation raises a \<open>RuntimeError\<close>, worker 0 and worker 7 of the same loader
  raise the same error, character for character, and its message holds no \<open>7\<close>.
\<close>

theorem worker_init_message_counterexample:
  "fst (worker_init_fn (init_fails (PyExc RuntimeError ''boom'')) 7 example_loader) =
     Raised (PyExc RuntimeError
       ''`DistLoader(pid=4242).init_fn()` could not initialize the worker loop of the neighbor sampler'') \<and>
   fst (worker_init_fn (init_fails (PyExc RuntimeError ''boom'')) 0 example_loader) =
     fst (worker_init_fn (init_fails (PyExc RuntimeError ''boom'')) 7 example_loader) \<and>
   CHR ''7'' \<notin> set
     ''`DistLoader(pid=4242).init_fn()` could not initialize the worker loop of the neighbor sampler''"
  by (simp add: worker_init_fn_def init_fails_def init_fn_message_def loader_repr_def str_int_def
        str_nat.simps digit_char_def example_loader_def Let_def)

text \<open>
  C4, amended. If the sampler's \<open>init_sampler_instance\<close> raises \<open>e\<close>, then
  \<open>worker_init_fn k\<close> raises as well, for every \<open>k\<close>: when \<open>e\<close> is a \<open>RuntimeError\<close> (or of
  a subclass) it raises a new \<open>RuntimeError\<close> whose message is the loader's
  representation (class name and process id) followed by the statement that the worker
  loop of the neighbor sampler could not be initialised; any other exception passes
  through unchanged. The message depends on the loader only, not on \<open>k\<close> nor on \<open>e\<close>.
\<close>

theorem worker_init_failure:
  assumes "dist_sampler self = Some smp" and "init smp = (Some e, smp')"
  shows "fst (worker_init_fn init k self) =
           Raised (if isinstance_RuntimeError e
                   then PyExc RuntimeError
                     (''`'' @ class_name self @ ''(pid='' @ str_int (pid self) @
                      '').init_fn()` could not initialize the worker loop of the neighbor sampler'')
                   else e)"
  using assms
  by (simp add: worker_init_fn_def init_fn_message_def loader_repr_def Let_def)

theorem worker_init_failure_witness:
  "dist_sampler example_loader = Some \<lparr>sampler_channel = Some 0\<rparr> \<and>
   fst (worker_init_fn (init_fails (PyExc (RuntimeError_subclass ''NotImplementedError'') ''boom''))
          2 example_loader) =
     Raised (PyExc RuntimeError
       (''`DistLoader(pid='' @ str_int 4242 @
        '').init_fn()` could not initialize the worker loop of the neighbor sampler'')) \<and>
   fst (worker_init_fn (init_fails (PyExc (Other_exception ''ValueError'') ''boom'')) 2 example_loader) =
     Raised (PyExc (Other_exception ''ValueError'') ''boom'')"
  using worker_init_failure [of example_loader "\<lparr>sampler_channel = Some 0\<rparr>"
      "init_fails (PyExc (RuntimeError_subclass ''NotImplementedError'') ''boom'')"
      "PyExc (RuntimeError_subclass ''NotImplementedError'') ''boom''" "\<lparr>sampler_channel = Some 0\<rparr>" 2]
    worker_init_failure [of example_loader "\<lparr>sampler_channel = Some 0\<rparr>"
      "init_fails (PyExc (Other_exception ''ValueError'') ''boom'')"
      "PyExc (Other_exception ''ValueError'') ''boom''" "\<lparr>sampler_channel = Some 0\<rparr>" 2]
  by (simp add: example_loader_def init_fails_def)

end
